theory Spec2Isabelle
  imports Main
begin

section \<open>JewelSteps WPPConnect server: a model of \<open>index.js\<close>\<close>

text \<open>
  The server keeps its state in module-level variables (\<open>client\<close>, \<open>isConnected\<close>,
  \<open>reconnectAttempts\<close>) that are changed by callbacks running one at a time on the
  Node.js event loop. The model is a record of those variables together with what the
  callbacks leave behind in the outside world: pending \<open>setTimeout\<close> and
  \<open>setInterval\<close> registrations, calls made to the adapter and to the CRM webhook, and
  the console. Every callback is a function from the state to the next state.
\<close>

subsection \<open>Strings and numbers of the JavaScript runtime\<close>

definition is_digit :: "char \<Rightarrow> bool" where
  \<comment> \<open>the character class \<open>[0-9]\<close>\<close>
  "is_digit c = (c \<in> set ''0123456789'')"

definition digit_char :: "nat \<Rightarrow> char" where
  "digit_char n = ''0123456789'' ! (n mod 10)"

fun pad_digits :: "nat \<Rightarrow> nat \<Rightarrow> string" where
  \<comment> \<open>the last \<open>w\<close> decimal digits of \<open>n\<close>, zero padded\<close>
  "pad_digits 0 n = []"
| "pad_digits (Suc w) n = pad_digits w (n div 10) @ [digit_char n]"

fun show_nat :: "nat \<Rightarrow> string" where
  \<comment> \<open>\<open>String(n)\<close> for a non-negative integer\<close>
  "show_nat n = (if n < 10 then [digit_char n] else show_nat (n div 10) @ [digit_char n])"

declare show_nat.simps [simp del]

fun replace_first :: "string \<Rightarrow> string \<Rightarrow> string \<Rightarrow> string" where
  \<comment> \<open>\<open>s.replace(pat, rep)\<close> with a string pattern: only the first occurrence is replaced\<close>
  "replace_first pat rep [] = (if pat = [] then rep else [])"
| "replace_first pat rep (c # cs) =
     (if take (length pat) (c # cs) = pat then rep @ drop (length pat) (c # cs)
      else c # replace_first pat rep cs)"

definition strip_non_digits :: "string \<Rightarrow> string" where
  \<comment> \<open>\<open>s.replace(/[^0-9]/g, '')\<close>\<close>
  "strip_non_digits s = filter is_digit s"

subsection \<open>Configuration\<close>

definition env_or :: "string option \<Rightarrow> string \<Rightarrow> string" where
  \<comment> \<open>\<open>process.env.X || dflt\<close>: an unset and an empty variable both give the default\<close>
  "env_or v dflt = (case v of None \<Rightarrow> dflt | Some x \<Rightarrow> if x = [] then dflt else x)"

definition SYNC_KEY :: "string option \<Rightarrow> string" where
  "SYNC_KEY env = env_or env []"

definition MAX_RECONNECT_ATTEMPTS :: nat where
  "MAX_RECONNECT_ATTEMPTS = 10"

subsection \<open>Global state and the outside world\<close>

datatype level = LOG | WARN | ERROR

datatype json = JUndefined | JNull | JBool bool | JNum int | JStr string | JObject

record payload =
  p_sync_key :: string
  p_phone :: string
  p_message :: string
  p_sender :: string
  p_timestamp :: string

record server =
  client :: bool                       \<comment> \<open>\<open>client !== null\<close>\<close>
  isConnected :: bool
  reconnectAttempts :: nat
  timers :: "nat list"                 \<comment> \<open>delays of the pending \<open>setTimeout(initializeWhatsApp)\<close>\<close>
  starting :: nat                      \<comment> \<open>\<open>initializeWhatsApp\<close> calls waiting in \<open>await wppconnect.create\<close>\<close>
  intervals :: "nat list"              \<comment> \<open>periods of the registered \<open>setInterval\<close> callbacks\<close>
  probes :: nat                        \<comment> \<open>calls of \<open>client.checkConnection()\<close>\<close>
  sent :: "(string \<times> json) list"       \<comment> \<open>calls of \<open>client.sendText(chatId, message)\<close>\<close>
  posts :: "payload list"              \<comment> \<open>calls of \<open>axios.post(CRM_WEBHOOK, data)\<close>\<close>
  console :: "(level \<times> string) list"  \<comment> \<open>what \<open>console.log\<close>, \<open>warn\<close> and \<open>error\<close> have written\<close>

definition boot :: server where
  \<comment> \<open>the module-level initialisers: \<open>client = null\<close>, \<open>isConnected = false\<close>, \<open>reconnectAttempts = 0\<close>\<close>
  "boot = \<lparr> client = False, isConnected = False, reconnectAttempts = 0, timers = [],
            starting = 0, intervals = [], probes = 0, sent = [], posts = [], console = [] \<rparr>"

text \<open>
  The console keeps the fixed text of each line and the numbers and addresses put into
  it. Lines that only repeat the configuration (session name, paths) or draw a frame
  are left out.
\<close>

definition say :: "level \<Rightarrow> string \<Rightarrow> server \<Rightarrow> server" where
  "say l msg s = s\<lparr> console := console s @ [(l, msg)] \<rparr>"

definition setTimeout :: "nat \<Rightarrow> server \<Rightarrow> server" where
  \<comment> \<open>\<open>setTimeout(() => { initializeWhatsApp(); }, delay)\<close>\<close>
  "setTimeout delay s = s\<lparr> timers := timers s @ [delay] \<rparr>"

subsection \<open>Session supervisor: \<open>initializeWhatsApp\<close> and its event handlers\<close>

definition reconnect_delay :: "nat \<Rightarrow> nat" where
  \<comment> \<open>\<open>Math.min(reconnectAttempts * 5000, 30000)\<close>\<close>
  "reconnect_delay n = min (n * 5000) 30000"

definition attempt_text :: "nat \<Rightarrow> string" where
  "attempt_text n = ''(Attempt '' @ show_nat n @ ''/'' @ show_nat MAX_RECONNECT_ATTEMPTS @ '')''"

definition initializeWhatsApp :: "bool \<Rightarrow> server \<Rightarrow> server" where
  \<comment> \<open>the synchronous part of \<open>initializeWhatsApp\<close>, up to \<open>await wppconnect.create\<close>;
      the argument is the result of \<open>fs.existsSync(CHROME_PATH)\<close>\<close>
  "initializeWhatsApp chromeExists s =
     (let s1 = say LOG ''Initializing WhatsApp session...'' s in
      if \<not> chromeExists
      then say ERROR ''Please verify CHROME_PATH environment variable.''
             (say ERROR ''Chrome not found'' s1)
      else s1\<lparr> starting := starting s1 + 1 \<rparr>)"

definition create_resolved :: "server \<Rightarrow> server" where
  \<comment> \<open>\<open>wppconnect.create\<close> resolves: the handlers and the liveness interval are registered\<close>
  "create_resolved s =
     (let s1 = s\<lparr> starting := starting s - 1, client := True \<rparr>;
          s2 = say LOG ''WhatsApp session created successfully'' s1
      in s2\<lparr> intervals := intervals s2 @ [30000] \<rparr>)"

definition create_rejected :: "server \<Rightarrow> server" where
  \<comment> \<open>\<open>wppconnect.create\<close> throws: the \<open>catch\<close> block of \<open>initializeWhatsApp\<close>\<close>
  "create_rejected s =
     (let s1 = say ERROR ''Error details''
                (say ERROR ''Error initializing WhatsApp'' (s\<lparr> starting := starting s - 1 \<rparr>));
          s2 = s1\<lparr> reconnectAttempts := reconnectAttempts s1 + 1 \<rparr>
      in if reconnectAttempts s2 < MAX_RECONNECT_ATTEMPTS
         then (let delay = reconnect_delay (reconnectAttempts s2) in
               setTimeout delay
                 (say LOG (''Retrying WhatsApp connection in '' @ show_nat (delay div 1000)
                           @ '' seconds... '' @ attempt_text (reconnectAttempts s2)) s2))
         else say ERROR ''Max initialization attempts reached. Please check your configuration and restart the server.'' s2)"

definition onQRCode :: "server \<Rightarrow> server" where
  "onQRCode s = (say LOG ''QR CODE GENERATED - SCAN WITH WHATSAPP'' s)\<lparr> reconnectAttempts := 0 \<rparr>"

definition onStateChange :: "string \<Rightarrow> server \<Rightarrow> server" where
  "onStateChange state s =
     (let s0 = say LOG (''WhatsApp State Changed: '' @ state) s in
      if state = ''CONNECTED'' then
        say LOG ''WhatsApp connected successfully!''
          (s0\<lparr> isConnected := True, reconnectAttempts := 0 \<rparr>)
      else if state = ''DISCONNECTED'' then
        (let s1 = say LOG ''WhatsApp disconnected'' (s0\<lparr> isConnected := False \<rparr>) in
         if reconnectAttempts s1 < MAX_RECONNECT_ATTEMPTS then
           (let s2 = s1\<lparr> reconnectAttempts := reconnectAttempts s1 + 1 \<rparr>;
                delay = reconnect_delay (reconnectAttempts s2)
            in setTimeout delay
                 (say LOG (''Attempting to reconnect in '' @ show_nat (delay div 1000)
                           @ '' seconds... '' @ attempt_text (reconnectAttempts s2)) s2))
         else say ERROR ''Max reconnection attempts reached. Please restart the server.'' s1)
      else if state = ''CONFLICT'' then
        say LOG ''WhatsApp session conflict detected. Please scan QR code again.'' s0
      else if state = ''UNPAIRED'' then
        say LOG ''WhatsApp session unpaired. Please scan QR code again.'' s0
      else s0)"

subsection \<open>Liveness monitor: the \<open>setInterval\<close> callback\<close>

definition connection_check :: "string option \<Rightarrow> server \<Rightarrow> server" where
  \<comment> \<open>the argument is what \<open>client.checkConnection()\<close> does when it is called:
      \<open>None\<close> when it resolves, \<open>Some msg\<close> when it throws an error with that message\<close>
  "connection_check probe s =
     (if client s \<and> isConnected s then
        (let s1 = s\<lparr> probes := probes s + 1 \<rparr> in
         case probe of
           None \<Rightarrow> s1
         | Some msg \<Rightarrow> (say ERROR (''Connection check failed: '' @ msg) s1)\<lparr> isConnected := False \<rparr>)
      else s)"

subsection \<open>The event loop\<close>

datatype event =
    Listen bool               \<comment> \<open>the \<open>app.listen\<close> callback calls \<open>initializeWhatsApp()\<close>\<close>
  | TimerFires nat bool       \<comment> \<open>the pending timer at this position fires\<close>
  | CreateResolves
  | CreateRejects
  | QRCode
  | StateChange string
  | IntervalFires "string option"

fun step :: "event \<Rightarrow> server \<Rightarrow> server" where
  "step (Listen chromeExists) s = initializeWhatsApp chromeExists s"
| "step (TimerFires i chromeExists) s =
     (if i < length (timers s)
      then initializeWhatsApp chromeExists (s\<lparr> timers := take i (timers s) @ drop (Suc i) (timers s) \<rparr>)
      else s)"
| "step CreateResolves s = (if 0 < starting s then create_resolved s else s)"
| "step CreateRejects s = (if 0 < starting s then create_rejected s else s)"
| "step QRCode s = (if client s then onQRCode s else s)"
| "step (StateChange state) s = (if client s then onStateChange state s else s)"
| "step (IntervalFires probe) s = (if intervals s \<noteq> [] then connection_check probe s else s)"

fun run :: "event list \<Rightarrow> server \<Rightarrow> server" where
  "run [] s = s"
| "run (e # es) s = run es (step e s)"

subsection \<open>Errors as values\<close>

text \<open>
  A JavaScript function that may throw returns \<open>Inl\<close> of the error or \<open>Inr\<close> of its
  value, together with the state it leaves. A \<open>try\<close>/\<open>catch\<close> is a case distinction on
  that result.
\<close>

datatype axios_error =
    WithResponse nat          \<comment> \<open>\<open>error.response\<close> is set: the status was refused by \<open>validateStatus\<close>\<close>
  | WithRequest               \<comment> \<open>\<open>error.request\<close> is set: no response (network error, timeout)\<close>
  | WithMessage string        \<comment> \<open>neither: the request could not be set up\<close>

datatype js_error = RangeError string | TypeError string | AxiosError axios_error

subsection \<open>\<open>Date.prototype.toISOString\<close>\<close>

text \<open>
  The built-in is modelled after ECMAScript: a time value is a number of milliseconds
  since 1970-01-01T00:00:00Z, valid up to \<open>8.64e15\<close> in absolute value; the date is the
  proleptic Gregorian one. Days are turned into a civil date by the usual era
  computation (400-year eras of 146097 days starting on 1 March). Years from 0 to 9999
  print with four digits, all others with a sign and six digits.
\<close>

definition civil_from_days :: "int \<Rightarrow> int \<times> int \<times> int" where
  \<comment> \<open>year, month (1 to 12) and day of the month of a day number (day 0 is 1970-01-01);
      \<open>z\<close> counts days from 0000-03-01, then 400-year, 100-year, 4-year and 1-year
      periods are taken off in turn\<close>
  "civil_from_days day =
     (let z = day + 719468;
          n400 = z div 146097;
          r400 = z mod 146097;
          n100 = min 3 (r400 div 36524);
          r100 = r400 - n100 * 36524;
          n4 = r100 div 1461;
          r4 = r100 mod 1461;
          n1 = min 3 (r4 div 365);
          doy = r4 - n1 * 365;
          mp = (5 * doy + 2) div 153;
          d = doy - (153 * mp + 2) div 5 + 1;
          m = (if mp < 10 then mp + 3 else mp - 9);
          y = 400 * n400 + 100 * n100 + 4 * n4 + n1 + (if m \<le> 2 then 1 else 0)
      in (y, m, d))"

definition days_from_civil :: "int \<Rightarrow> int \<Rightarrow> int \<Rightarrow> int" where
  \<comment> \<open>the day number of a civil date, counted from the years, leap days and months
      before it; it is used to check \<open>civil_from_days\<close>\<close>
  "days_from_civil y m d =
     (let y' = (if m \<le> 2 then y - 1 else y);
          era = y' div 400;
          yoe = y' mod 400;
          mp = (if 2 < m then m - 3 else m + 9);
          doy = (153 * mp + 2) div 5 + d - 1;
          doe = yoe * 365 + yoe div 4 - yoe div 100 + doy
      in era * 146097 + doe - 719468)"

definition year_text :: "int \<Rightarrow> string" where
  "year_text y =
     (if 0 \<le> y \<and> y \<le> 9999 then pad_digits 4 (nat y)
      else (if y < 0 then ''-'' else ''+'') @ pad_digits 6 (nat \<bar>y\<bar>))"

definition toISOString :: "int \<Rightarrow> js_error + string" where
  "toISOString ms =
     (if 8640000000000000 < \<bar>ms\<bar> then Inl (RangeError ''Invalid time value'')
      else
        (let (y, m, d) = civil_from_days (ms div 86400000);
             t = nat (ms mod 86400000)
         in Inr (year_text y @ ''-'' @ pad_digits 2 (nat m) @ ''-'' @ pad_digits 2 (nat d) @ ''T''
                 @ pad_digits 2 (t div 3600000) @ '':'' @ pad_digits 2 (t div 60000 mod 60) @ '':''
                 @ pad_digits 2 (t div 1000 mod 60) @ ''.'' @ pad_digits 3 (t mod 1000) @ ''Z'')))"

definition matches_form :: "string \<Rightarrow> string \<Rightarrow> bool" where
  \<comment> \<open>\<open>s\<close> has the shape of \<open>form\<close>: a digit where the form has \<open>d\<close>, the form's own
      character elsewhere\<close>
  "matches_form form s =
     list_all2 (\<lambda>f c. if f = CHR ''d'' then is_digit c else c = f) form s"

definition fixed_form :: "string \<Rightarrow> bool" where
  \<comment> \<open>\<open>YYYY-MM-DD HH:MM:SS\<close>\<close>
  "fixed_form s = matches_form ''dddd-dd-dd dd:dd:dd'' s"

subsection \<open>Inbound relay: \<open>sendToCRM\<close> and the \<open>onMessage\<close> handler\<close>

datatype webhook =
    Status nat                \<comment> \<open>the CRM answers with this HTTP status\<close>
  | NoResponse                \<comment> \<open>no answer: network error or the 10 s timeout\<close>
  | SetupFailure string       \<comment> \<open>the request could not be made\<close>

definition axios_post :: "webhook \<Rightarrow> payload \<Rightarrow> server \<Rightarrow> (js_error + nat) \<times> server" where
  \<comment> \<open>\<open>axios.post(CRM_WEBHOOK, data, { ..., validateStatus: (status) => status < 500 })\<close>:
      resolves with the status when \<open>validateStatus\<close> accepts it, rejects otherwise\<close>
  "axios_post w data s =
     (let s1 = s\<lparr> posts := posts s @ [data] \<rparr> in
      case w of
        Status n \<Rightarrow> if n < 500 then (Inr n, s1) else (Inl (AxiosError (WithResponse n)), s1)
      | NoResponse \<Rightarrow> (Inl (AxiosError WithRequest), s1)
      | SetupFailure msg \<Rightarrow> (Inl (AxiosError (WithMessage msg)), s1))"

definition sendToCRM :: "webhook \<Rightarrow> payload \<Rightarrow> server \<Rightarrow> (js_error + bool) \<times> server" where
  "sendToCRM w data s =
     (case axios_post w data s of
        (Inr status, s1) \<Rightarrow>
          if status = 200 then (Inr True, say LOG ''Message forwarded to CRM successfully'' s1)
          else (Inr False, say ERROR (''CRM webhook returned status '' @ show_nat status) s1)
      | (Inl (AxiosError (WithResponse n)), s1) \<Rightarrow>
          (Inr False, say ERROR (''CRM webhook error ('' @ show_nat n @ '')'') s1)
      | (Inl (AxiosError WithRequest), s1) \<Rightarrow>
          (Inr False, say ERROR ''No response from CRM webhook. Check CRM_WEBHOOK URL and network connectivity.'' s1)
      | (Inl (AxiosError (WithMessage msg)), s1) \<Rightarrow>
          (Inr False, say ERROR (''Error sending to CRM webhook: '' @ msg) s1)
      | (Inl _, s1) \<Rightarrow>
          (Inr False, say ERROR ''Error sending to CRM webhook: '' s1))"

record wa_message =
  isGroupMsg :: bool
  m_from :: string
  m_body :: "string option"
  m_caption :: "string option"
  m_type :: "string option"
  m_filename :: "string option"
  m_lat :: string                      \<comment> \<open>\<open>String(message.lat)\<close>\<close>
  m_lng :: string                      \<comment> \<open>\<open>String(message.lng)\<close>\<close>
  m_timestamp :: "int option"          \<comment> \<open>epoch seconds\<close>

definition or_else :: "string option \<Rightarrow> string \<Rightarrow> string" where
  \<comment> \<open>\<open>a || b\<close> on strings: \<open>undefined\<close> and the empty string are falsy\<close>
  "or_else a b = (case a of None \<Rightarrow> b | Some x \<Rightarrow> if x = [] then b else x)"

definition present :: "string option \<Rightarrow> bool" where
  "present a = (case a of None \<Rightarrow> False | Some x \<Rightarrow> x \<noteq> [])"

definition messageText :: "wa_message \<Rightarrow> string" where
  "messageText m =
     (if present (m_body m) then the (m_body m)
      else if present (m_caption m) then the (m_caption m)
      else if m_type m = Some ''ptt'' \<or> m_type m = Some ''audio'' then ''[Audio Message]''
      else if m_type m = Some ''image'' \<or> m_type m = Some ''video''
        then or_else (m_caption m) ''[Media Message]''
      else if m_type m = Some ''document''
        then or_else (m_caption m) (''[Document: '' @ or_else (m_filename m) ''File'' @ '']'')
      else if m_type m = Some ''location''
        then ''[Location: '' @ m_lat m @ '', '' @ m_lng m @ '']''
      else ''['' @ or_else (m_type m) ''Unsupported'' @ '' Message]'')"

definition timestamp_text :: "int \<Rightarrow> js_error + string" where
  \<comment> \<open>\<open>new Date(ms).toISOString().slice(0, 19).replace('T', ' ')\<close>\<close>
  "timestamp_text ms =
     (case toISOString ms of
        Inl e \<Rightarrow> Inl e
      | Inr isoString \<Rightarrow> Inr (replace_first ''T'' '' '' (take 19 isoString)))"

definition message_timestamp :: "int \<Rightarrow> wa_message \<Rightarrow> js_error + string" where
  \<comment> \<open>\<open>now\<close> is the time value of \<open>new Date()\<close>\<close>
  "message_timestamp now m =
     (case m_timestamp m of
        None \<Rightarrow> timestamp_text now
      | Some t \<Rightarrow> if t \<noteq> 0 then timestamp_text (t * 1000) else timestamp_text now)"

definition preview :: "string \<Rightarrow> string" where
  "preview txt = take 50 txt @ (if 50 < length txt then ''...'' else [])"

definition onMessage_try :: "string \<Rightarrow> webhook \<Rightarrow> int \<Rightarrow> wa_message \<Rightarrow> server \<Rightarrow> (js_error + unit) \<times> server" where
  \<comment> \<open>the \<open>try\<close> block of the handler; the first argument is \<open>SYNC_KEY\<close>\<close>
  "onMessage_try K w now m s =
     (if isGroupMsg m \<or> m_from m = ''status@broadcast'' then (Inr (), s)
      else
        (let phone = replace_first ''@c.us'' [] (m_from m);
             txt = messageText m
         in case message_timestamp now m of
              Inl e \<Rightarrow> (Inl e, s)
            | Inr ts \<Rightarrow>
                (let s1 = say LOG (''Message received from '' @ phone @ '': '' @ preview txt) s in
                 case sendToCRM w \<lparr> p_sync_key = K, p_phone = phone, p_message = txt,
                                     p_sender = ''customer'', p_timestamp = ts \<rparr> s1 of
                   (Inl e, s2) \<Rightarrow> (Inl e, s2)
                 | (Inr success, s2) \<Rightarrow>
                     if \<not> success
                     then (Inr (), say ERROR (''Failed to forward message from '' @ phone @ '' to CRM'') s2)
                     else (Inr (), s2))))"

definition onMessage :: "string \<Rightarrow> webhook \<Rightarrow> int \<Rightarrow> wa_message \<Rightarrow> server \<Rightarrow> (js_error + unit) \<times> server" where
  "onMessage K w now m s =
     (case onMessage_try K w now m s of
        (Inl e, s1) \<Rightarrow> (Inr (), say ERROR ''Error processing incoming message'' s1)
      | (Inr u, s1) \<Rightarrow> (Inr u, s1))"

subsection \<open>Outbound gateway: \<open>POST /send-message\<close>\<close>

text \<open>
  \<open>req.body\<close> as \<open>express.json()\<close> leaves it: an object whose fields \<open>key\<close>,
  \<open>phone\<close> and \<open>message\<close> are JSON values, \<open>undefined\<close> when absent. Of a number
  only its being zero matters to the handler, of an object or array nothing does.
\<close>

record send_request =
  req_key :: json
  req_phone :: json
  req_message :: json

record response =
  res_status :: nat
  res_ok :: bool
  res_error :: "string option"
  res_message :: "string option"
  res_phone :: "string option"
  res_connected :: "bool option"

datatype send_outcome =
    SendResolves
  | SendThrows "string option"   \<comment> \<open>\<open>client.sendText\<close> throws; the argument is \<open>sendError.message\<close>\<close>

fun truthy :: "json \<Rightarrow> bool" where
  "truthy JUndefined = False"
| "truthy JNull = False"
| "truthy (JBool b) = b"
| "truthy (JNum n) = (n \<noteq> 0)"
| "truthy (JStr x) = (x \<noteq> [])"
| "truthy JObject = True"

definition failure :: "nat \<Rightarrow> string \<Rightarrow> response" where
  \<comment> \<open>\<open>res.status(code).json({ ok: false, error: msg })\<close>\<close>
  "failure code msg = \<lparr> res_status = code, res_ok = False, res_error = Some msg,
                        res_message = None, res_phone = None, res_connected = None \<rparr>"

definition send_message :: "string \<Rightarrow> send_outcome \<Rightarrow> send_request \<Rightarrow> server \<Rightarrow> response \<times> server" where
  \<comment> \<open>the first argument is \<open>SYNC_KEY\<close>, the second what the adapter does if it is called\<close>
  "send_message K adapter req s =
     (if \<not> truthy (req_key req) \<or> req_key req \<noteq> JStr K then
        (failure 401 ''Invalid sync key'', say WARN ''Invalid sync key attempt'' s)
      else if \<not> truthy (req_phone req) \<or> \<not> truthy (req_message req) then
        (failure 400 ''Phone and message are required'', s)
      else if \<not> client s \<or> \<not> isConnected s then
        ((failure 503 ''WhatsApp not connected. Please scan QR code first.'')\<lparr> res_connected := Some False \<rparr>, s)
      else
        (case req_phone req of
           JStr phone \<Rightarrow>
             (let formattedPhone = strip_non_digits phone in
              if length formattedPhone < 10 then (failure 400 ''Invalid phone number format'', s)
              else
                (let chatId = formattedPhone @ ''@c.us'';
                     s1 = s\<lparr> sent := sent s @ [(chatId, req_message req)] \<rparr>
                 in case adapter of
                      SendResolves \<Rightarrow>
                        (\<lparr> res_status = 200, res_ok = True, res_error = None,
                           res_message = Some ''Message sent successfully'',
                           res_phone = Some formattedPhone, res_connected = None \<rparr>,
                         say LOG (''Message sent to '' @ formattedPhone) s1)
                    | SendThrows msg \<Rightarrow>
                        (failure 500 (or_else msg ''Failed to send message via WhatsApp''),
                         say ERROR ''Error sending WhatsApp message'' s1)))
         | _ \<Rightarrow>
             \<comment> \<open>\<open>phone.replace\<close> is not a function: the TypeError reaches the outer \<open>catch\<close>\<close>
             (failure 500 ''phone.replace is not a function'',
              say ERROR ''Error in /send-message endpoint'' s)))"

subsection \<open>Concrete runs and inputs\<close>

definition online :: server where
  \<comment> \<open>the server after a start that succeeded and a \<open>CONNECTED\<close> state change\<close>
  "online = run [Listen True, CreateResolves, StateChange ''CONNECTED''] boot"

definition failing_run :: "event list" where
  \<comment> \<open>nine initialisations that fail, each retried when its timer fires; the tenth
      succeeds; the adapter then reports \<open>DISCONNECTED\<close>, and the retry this schedules
      fails as well\<close>
  "failing_run =
     [Listen True,
      CreateRejects, TimerFires 0 True, CreateRejects, TimerFires 0 True,
      CreateRejects, TimerFires 0 True, CreateRejects, TimerFires 0 True,
      CreateRejects, TimerFires 0 True, CreateRejects, TimerFires 0 True,
      CreateRejects, TimerFires 0 True, CreateRejects, TimerFires 0 True,
      CreateRejects, TimerFires 0 True,
      CreateResolves, StateChange ''DISCONNECTED'', TimerFires 0 True, CreateRejects]"

definition ten_disconnects :: "event list" where
  "ten_disconnects =
     [StateChange ''DISCONNECTED'', StateChange ''DISCONNECTED'', StateChange ''DISCONNECTED'',
      StateChange ''DISCONNECTED'', StateChange ''DISCONNECTED'', StateChange ''DISCONNECTED'',
      StateChange ''DISCONNECTED'', StateChange ''DISCONNECTED'', StateChange ''DISCONNECTED'',
      StateChange ''DISCONNECTED'']"

definition flapping_run :: "event list" where
  \<comment> \<open>a session that drops, starts to reopen and drops again before any timer fires\<close>
  "flapping_run =
     [Listen True, CreateResolves, StateChange ''CONNECTED'',
      StateChange ''DISCONNECTED'', StateChange ''OPENING'', StateChange ''DISCONNECTED'']"

definition hi_message :: wa_message where
  "hi_message = \<lparr> isGroupMsg = False, m_from = ''919999999999@c.us'', m_body = Some ''Hi'',
                   m_caption = None, m_type = Some ''chat'', m_filename = None,
                   m_lat = ''undefined'', m_lng = ''undefined'',
                   m_timestamp = Some 1700000000 \<rparr>"

definition lid_message :: wa_message where
  \<comment> \<open>a direct message whose sender address does not end in \<open>@c.us\<close>\<close>
  "lid_message = hi_message\<lparr> m_from := ''123456789012345@lid'' \<rparr>"

definition late_message :: wa_message where
  \<comment> \<open>a timestamp in the year 10000\<close>
  "late_message = hi_message\<lparr> m_timestamp := Some 253402300800 \<rparr>"

definition short_phone_request :: send_request where
  "short_phone_request = \<lparr> req_key = JStr ''s3cret'', req_phone = JStr ''12345'',
                            req_message = JStr ''Hello'' \<rparr>"

definition good_request :: send_request where
  "good_request = \<lparr> req_key = JStr ''s3cret'', req_phone = JStr ''+91 99999 99999'',
                     req_message = JStr ''Hello'' \<rparr>"

section \<open>Proofs\<close>

subsection \<open>What each callback does to each variable\<close>

lemma say_fields [simp]:
  "client (say l msg s) = client s" "isConnected (say l msg s) = isConnected s"
  "reconnectAttempts (say l msg s) = reconnectAttempts s" "timers (say l msg s) = timers s"
  "starting (say l msg s) = starting s" "intervals (say l msg s) = intervals s"
  "probes (say l msg s) = probes s" "sent (say l msg s) = sent s" "posts (say l msg s) = posts s"
  "console (say l msg s) = console s @ [(l, msg)]"
  by (simp_all add: say_def)

lemma setTimeout_fields [simp]:
  "client (setTimeout d s) = client s" "isConnected (setTimeout d s) = isConnected s"
  "reconnectAttempts (setTimeout d s) = reconnectAttempts s"
  "timers (setTimeout d s) = timers s @ [d]"
  "starting (setTimeout d s) = starting s" "intervals (setTimeout d s) = intervals s"
  "probes (setTimeout d s) = probes s" "sent (setTimeout d s) = sent s" "posts (setTimeout d s) = posts s"
  "console (setTimeout d s) = console s"
  by (simp_all add: setTimeout_def)

lemma boot_fields:
  "client boot = False" "isConnected boot = False" "reconnectAttempts boot = 0"
  "timers boot = []" "starting boot = 0" "intervals boot = []" "probes boot = 0"
  "sent boot = []" "posts boot = []" "console boot = []"
  by (simp_all add: boot_def)

lemma initializeWhatsApp_fields:
  "client (initializeWhatsApp c s) = client s"
  "isConnected (initializeWhatsApp c s) = isConnected s"
  "reconnectAttempts (initializeWhatsApp c s) = reconnectAttempts s"
  "timers (initializeWhatsApp c s) = timers s"
  "starting (initializeWhatsApp c s) = (if c then starting s + 1 else starting s)"
  "intervals (initializeWhatsApp c s) = intervals s"
  "probes (initializeWhatsApp c s) = probes s"
  "sent (initializeWhatsApp c s) = sent s"
  "posts (initializeWhatsApp c s) = posts s"
  by (simp_all add: initializeWhatsApp_def Let_def)

lemma create_resolved_fields:
  "client (create_resolved s) = True"
  "isConnected (create_resolved s) = isConnected s"
  "reconnectAttempts (create_resolved s) = reconnectAttempts s"
  "timers (create_resolved s) = timers s"
  "starting (create_resolved s) = starting s - 1"
  "intervals (create_resolved s) = intervals s @ [30000]"
  "probes (create_resolved s) = probes s"
  "sent (create_resolved s) = sent s"
  "posts (create_resolved s) = posts s"
  by (simp_all add: create_resolved_def Let_def)

lemma create_rejected_fields:
  "client (create_rejected s) = client s"
  "isConnected (create_rejected s) = isConnected s"
  "reconnectAttempts (create_rejected s) = reconnectAttempts s + 1"
  "timers (create_rejected s) =
     (if reconnectAttempts s + 1 < MAX_RECONNECT_ATTEMPTS
      then timers s @ [reconnect_delay (reconnectAttempts s + 1)] else timers s)"
  "starting (create_rejected s) = starting s - 1"
  "intervals (create_rejected s) = intervals s"
  "probes (create_rejected s) = probes s"
  "sent (create_rejected s) = sent s"
  "posts (create_rejected s) = posts s"
  by (simp_all add: create_rejected_def Let_def)

lemma onStateChange_CONNECTED_fields:
  "client (onStateChange ''CONNECTED'' s) = client s"
  "isConnected (onStateChange ''CONNECTED'' s) = True"
  "reconnectAttempts (onStateChange ''CONNECTED'' s) = 0"
  "timers (onStateChange ''CONNECTED'' s) = timers s"
  "starting (onStateChange ''CONNECTED'' s) = starting s"
  "intervals (onStateChange ''CONNECTED'' s) = intervals s"
  "probes (onStateChange ''CONNECTED'' s) = probes s"
  "sent (onStateChange ''CONNECTED'' s) = sent s"
  "posts (onStateChange ''CONNECTED'' s) = posts s"
  by (simp_all add: onStateChange_def Let_def)

lemma onStateChange_DISCONNECTED_fields:
  "client (onStateChange ''DISCONNECTED'' s) = client s"
  "isConnected (onStateChange ''DISCONNECTED'' s) = False"
  "reconnectAttempts (onStateChange ''DISCONNECTED'' s) =
     (if reconnectAttempts s < MAX_RECONNECT_ATTEMPTS then reconnectAttempts s + 1
      else reconnectAttempts s)"
  "timers (onStateChange ''DISCONNECTED'' s) =
     (if reconnectAttempts s < MAX_RECONNECT_ATTEMPTS
      then timers s @ [reconnect_delay (reconnectAttempts s + 1)] else timers s)"
  "starting (onStateChange ''DISCONNECTED'' s) = starting s"
  "intervals (onStateChange ''DISCONNECTED'' s) = intervals s"
  "probes (onStateChange ''DISCONNECTED'' s) = probes s"
  "sent (onStateChange ''DISCONNECTED'' s) = sent s"
  "posts (onStateChange ''DISCONNECTED'' s) = posts s"
  by (simp_all add: onStateChange_def Let_def)

lemma onStateChange_other:
  assumes "state \<noteq> ''CONNECTED''" "state \<noteq> ''DISCONNECTED''"
  shows "client (onStateChange state s) = client s"
    and "isConnected (onStateChange state s) = isConnected s"
    and "reconnectAttempts (onStateChange state s) = reconnectAttempts s"
    and "timers (onStateChange state s) = timers s"
    and "starting (onStateChange state s) = starting s"
    and "intervals (onStateChange state s) = intervals s"
    and "probes (onStateChange state s) = probes s"
    and "sent (onStateChange state s) = sent s"
    and "posts (onStateChange state s) = posts s"
  using assms by (simp_all add: onStateChange_def Let_def)

lemma connection_check_fields:
  "client (connection_check p s) = client s"
  "isConnected (connection_check p s) = (isConnected s \<and> (client s \<longrightarrow> p = None))"
  "reconnectAttempts (connection_check p s) = reconnectAttempts s"
  "timers (connection_check p s) = timers s"
  "starting (connection_check p s) = starting s"
  "intervals (connection_check p s) = intervals s"
  "probes (connection_check p s) = (if client s \<and> isConnected s then probes s + 1 else probes s)"
  "sent (connection_check p s) = sent s"
  "posts (connection_check p s) = posts s"
  by (auto simp: connection_check_def Let_def split: option.splits)

lemmas supervisor_fields =
  boot_fields initializeWhatsApp_fields create_resolved_fields create_rejected_fields
  onStateChange_CONNECTED_fields onStateChange_DISCONNECTED_fields

lemma online_fields:
  "client online" "isConnected online" "reconnectAttempts online = 0" "timers online = []"
  "starting online = 0" "intervals online = [30000]" "probes online = 0"
  "sent online = []" "posts online = []"
  by (simp_all add: online_def supervisor_fields)

lemma reconnect_delay_mono: "m \<le> n \<Longrightarrow> reconnect_delay m \<le> reconnect_delay n"
  by (simp add: reconnect_delay_def min_def)

lemma reconnect_delay_cap: "reconnect_delay n \<le> 30000"
  by (simp add: reconnect_delay_def)

subsection \<open>The reconnect counter and its maximum\<close>

text \<open>
  Claim C1: in a run where the adapter keeps reporting disconnection or initialisation
  failure, the reconnect-attempt counter never exceeds the maximum of 10. The
  \<open>DISCONNECTED\<close> handler compares the counter with the maximum before it increments
  it; the \<open>catch\<close> block of \<open>initializeWhatsApp\<close> increments first and compares
  afterwards. So a retry scheduled by the handler at counter value 10 that fails
  takes the counter to 11: the run \<open>failing_run\<close> ends with \<open>reconnectAttempts = 11\<close>.
\<close>

theorem counter_exceeds_maximum:
  "reconnectAttempts (run failing_run boot) = 11 \<and> MAX_RECONNECT_ATTEMPTS = 10"
  by (simp add: failing_run_def supervisor_fields MAX_RECONNECT_ATTEMPTS_def reconnect_delay_def)

text \<open>
  The second half of the claim holds on both paths: with the counter at the maximum
  or beyond, neither schedules a retry.
\<close>

lemma no_retry_at_maximum:
  assumes "MAX_RECONNECT_ATTEMPTS \<le> reconnectAttempts s"
  shows "timers (onStateChange ''DISCONNECTED'' s) = timers s"
    and "timers (create_rejected s) = timers s"
    and "reconnectAttempts (onStateChange ''DISCONNECTED'' s) = reconnectAttempts s"
  using assms by (simp_all add: supervisor_fields)

subsection \<open>The reconnect delay\<close>

text \<open>
  Claim C2: when a retry is scheduled with the counter at \<open>n\<close> (after the increment),
  its delay is \<open>min (n * 5000) 30000\<close> milliseconds, on the \<open>DISCONNECTED\<close> path for
  every \<open>n\<close> from 1 to the maximum and on the \<open>catch\<close> path for every \<open>n\<close> at which
  that path schedules one; the delay is monotone in \<open>n\<close> and at most 30000; ten
  \<open>DISCONNECTED\<close> events in a row schedule the delays 5, 10, 15, 20, 25, 30, 30, 30,
  30, 30 seconds.
\<close>

theorem reconnect_delay_schedule:
  "(1 \<le> n \<and> n \<le> MAX_RECONNECT_ATTEMPTS \<and> reconnectAttempts s + 1 = n \<longrightarrow>
      reconnectAttempts (onStateChange ''DISCONNECTED'' s) = n \<and>
      timers (onStateChange ''DISCONNECTED'' s) = timers s @ [min (n * 5000) 30000])
   \<and> (1 \<le> n \<and> n < MAX_RECONNECT_ATTEMPTS \<and> reconnectAttempts s + 1 = n \<longrightarrow>
      reconnectAttempts (create_rejected s) = n \<and>
      timers (create_rejected s) = timers s @ [min (n * 5000) 30000])
   \<and> (m \<le> n \<longrightarrow> min (m * 5000) 30000 \<le> min (n * 5000) (30000::nat))
   \<and> min (n * 5000) 30000 \<le> (30000::nat)
   \<and> timers (run ten_disconnects online)
       = [5000, 10000, 15000, 20000, 25000, 30000, 30000, 30000, 30000, 30000]"
proof -
  have "timers (run ten_disconnects online)
       = [5000, 10000, 15000, 20000, 25000, 30000, 30000, 30000, 30000, 30000]"
    by (simp add: ten_disconnects_def supervisor_fields online_fields
        MAX_RECONNECT_ATTEMPTS_def reconnect_delay_def)
  then show ?thesis
    by (auto simp: supervisor_fields reconnect_delay_def)
qed

theorem reconnect_delay_schedule_witness:
  "reconnectAttempts (onStateChange ''DISCONNECTED'' online) = 1
   \<and> timers (onStateChange ''DISCONNECTED'' online) = [5000]
   \<and> timers (create_rejected online) = [5000]"
  using reconnect_delay_schedule [of 1 online 0]
  by (simp add: online_fields MAX_RECONNECT_ATTEMPTS_def)

subsection \<open>Pending starts\<close>

text \<open>
  Claim C3 says that at most one \<open>start()\<close> is scheduled or in flight at any time.
  Nothing in the code looks at the pending timers before scheduling another: in
  \<open>flapping_run\<close> two \<open>DISCONNECTED\<close> events arrive before any timer fires, and two
  calls of \<open>initializeWhatsApp\<close> are pending.
\<close>

theorem two_starts_pending:
  "timers (run flapping_run boot) = [5000, 10000] \<and> starting (run flapping_run boot) = 0"
  by (simp add: flapping_run_def supervisor_fields onStateChange_other
      MAX_RECONNECT_ATTEMPTS_def reconnect_delay_def)

text \<open>
  Claim C3, as amended: every \<open>DISCONNECTED\<close> event schedules exactly one retry when
  the counter is below the maximum and none otherwise, and every failed
  \<open>wppconnect.create\<close> schedules exactly one retry when the incremented counter is
  below the maximum and none otherwise, whether or not other calls are pending; no
  event of the loop adds more than one to the number of calls scheduled or in flight.
\<close>

theorem one_retry_per_event:
  "length (timers (onStateChange ''DISCONNECTED'' s)) =
     length (timers s) + (if reconnectAttempts s < MAX_RECONNECT_ATTEMPTS then 1 else 0)
   \<and> starting (onStateChange ''DISCONNECTED'' s) = starting s
   \<and> length (timers (create_rejected s)) =
     length (timers s) + (if reconnectAttempts s + 1 < MAX_RECONNECT_ATTEMPTS then 1 else 0)
   \<and> starting (create_rejected s) = starting s - 1
   \<and> length (timers (step e s)) + starting (step e s) \<le> length (timers s) + starting s + 1"
proof -
  have "length (timers (step e s)) + starting (step e s) \<le> length (timers s) + starting s + 1"
  proof (cases e)
    case (StateChange state)
    then show ?thesis
      by (cases "state = ''CONNECTED''"; cases "state = ''DISCONNECTED''")
         (simp_all add: supervisor_fields onStateChange_other)
  qed (auto simp: supervisor_fields connection_check_fields onQRCode_def)
  then show ?thesis by (simp add: supervisor_fields)
qed

theorem one_retry_per_event_witness:
  "length (timers (onStateChange ''DISCONNECTED'' online)) = 1
   \<and> length (timers (onStateChange ''DISCONNECTED'' (onStateChange ''DISCONNECTED'' online))) = 2"
  using one_retry_per_event [of online "Listen True"]
        one_retry_per_event [of "onStateChange ''DISCONNECTED'' online" "Listen True"]
  by (simp add: online_fields supervisor_fields MAX_RECONNECT_ATTEMPTS_def)


subsection \<open>\<open>CONFLICT\<close> and \<open>UNPAIRED\<close>\<close>

text \<open>
  Claim C7 says that \<open>CONFLICT\<close> and \<open>UNPAIRED\<close> are handled like \<open>DISCONNECTED\<close>.
  On a connected session \<open>CONFLICT\<close> leaves \<open>isConnected\<close> true, the counter at 0 and
  no timer, where \<open>DISCONNECTED\<close> clears the flag, counts an attempt and schedules a
  retry after 5 seconds.
\<close>

theorem conflict_is_not_disconnect:
  "isConnected (onStateChange ''CONFLICT'' online)
   \<and> reconnectAttempts (onStateChange ''CONFLICT'' online) = 0
   \<and> timers (onStateChange ''CONFLICT'' online) = []
   \<and> isConnected (onStateChange ''DISCONNECTED'' online) = False
   \<and> reconnectAttempts (onStateChange ''DISCONNECTED'' online) = 1
   \<and> timers (onStateChange ''DISCONNECTED'' online) = [5000]"
  by (simp add: online_fields supervisor_fields onStateChange_other
      MAX_RECONNECT_ATTEMPTS_def reconnect_delay_def)

text \<open>
  Claim C7, as amended: on \<open>CONFLICT\<close> and on \<open>UNPAIRED\<close> the handler only writes two
  lines to the console (the state change and a request to scan the QR code again);
  the connection flag, the counter and the pending timers stay as they are.
\<close>

theorem conflict_unpaired_only_logged:
  assumes "state = ''CONFLICT'' \<or> state = ''UNPAIRED''"
  shows "\<exists>line. onStateChange state s =
           s\<lparr> console := console s @ [(LOG, ''WhatsApp State Changed: '' @ state), (LOG, line)] \<rparr>"
  using assms by (auto simp: onStateChange_def say_def)

theorem conflict_unpaired_only_logged_witness:
  "isConnected (onStateChange ''UNPAIRED'' online)
   \<and> reconnectAttempts (onStateChange ''UNPAIRED'' online) = 0
   \<and> timers (onStateChange ''UNPAIRED'' online) = []"
proof -
  obtain line where "onStateChange ''UNPAIRED'' online =
      online\<lparr> console := console online @ [(LOG, ''WhatsApp State Changed: '' @ ''UNPAIRED''), (LOG, line)] \<rparr>"
    using conflict_unpaired_only_logged [of "''UNPAIRED''" online] by auto
  then show ?thesis by (simp add: online_fields)
qed

subsection \<open>The liveness monitor\<close>

text \<open>
  Claim C8 says that a failed probe demotes the state and thereby hands control to
  the supervisor's reconnect path. After a failed probe on a connected session the
  flag is cleared, but the counter is still 0 and no retry is pending, where the
  reconnect path (the \<open>DISCONNECTED\<close> handler) would have scheduled one.
\<close>

theorem failed_probe_starts_no_reconnect:
  "isConnected (connection_check (Some ''timeout'') online) = False
   \<and> reconnectAttempts (connection_check (Some ''timeout'') online) = 0
   \<and> timers (connection_check (Some ''timeout'') online) = []
   \<and> starting (connection_check (Some ''timeout'') online) = 0
   \<and> timers (onStateChange ''DISCONNECTED'' online) = [5000]"
  by (simp add: online_fields supervisor_fields connection_check_fields
      MAX_RECONNECT_ATTEMPTS_def reconnect_delay_def)

text \<open>
  Claim C8, as amended: every successful start registers the monitor with a period of
  30000 ms; its callback calls \<open>checkConnection\<close> only when \<open>client\<close> is set and
  \<open>isConnected\<close> holds, and is a no-op otherwise; a probe that succeeds changes
  nothing, a probe that fails clears \<open>isConnected\<close> and logs the error, and that is
  all: the monitor never schedules a retry or changes the counter, and clearing the
  flag does not start the reconnect path.
\<close>

theorem liveness_monitor_only_demotes:
  "intervals (create_resolved s) = intervals s @ [30000]
   \<and> probes (connection_check probe s) =
       (if client s \<and> isConnected s then probes s + 1 else probes s)
   \<and> (\<not> (client s \<and> isConnected s) \<longrightarrow> connection_check probe s = s)
   \<and> (client s \<and> isConnected s \<longrightarrow>
        connection_check None s = s\<lparr> probes := probes s + 1 \<rparr>
        \<and> connection_check (Some msg) s =
            s\<lparr> probes := probes s + 1, isConnected := False,
               console := console s @ [(ERROR, ''Connection check failed: '' @ msg)] \<rparr>)
   \<and> timers (connection_check probe s) = timers s
   \<and> starting (connection_check probe s) = starting s
   \<and> reconnectAttempts (connection_check probe s) = reconnectAttempts s"
  by (simp add: create_resolved_fields connection_check_fields)
     (simp add: connection_check_def say_def)

theorem liveness_monitor_only_demotes_witness:
  "probes (connection_check (Some ''timeout'') online) = 1
   \<and> isConnected (connection_check (Some ''timeout'') online) = False
   \<and> timers (connection_check (Some ''timeout'') online) = []
   \<and> probes (connection_check (Some ''timeout'') boot) = 0"
  using liveness_monitor_only_demotes [of online "Some ''timeout''" "''timeout''"]
        liveness_monitor_only_demotes [of boot "Some ''timeout''" "''timeout''"]
  by (simp add: online_fields boot_fields)

subsection \<open>Failures of \<open>initializeWhatsApp\<close>\<close>

text \<open>
  Claim C9 says that every failure of \<open>start()\<close>, also one before the adapter is
  called, schedules a retry while the counter is below the maximum. When the Chrome
  binary is missing, the very first start returns with no retry scheduled and the
  counter at 0.
\<close>

theorem missing_chrome_schedules_no_retry:
  "timers (step (Listen False) boot) = []
   \<and> starting (step (Listen False) boot) = 0
   \<and> reconnectAttempts (step (Listen False) boot) = 0"
  by (simp add: supervisor_fields)

text \<open>
  Claim C9, as amended: when \<open>wppconnect.create\<close> throws and the incremented counter
  is below the maximum, the error is logged, the counter is incremented and a retry
  is scheduled after \<open>min (counter * 5000) 30000\<close> ms (the connection flag is left as
  it is); when the Chrome binary is missing, \<open>initializeWhatsApp\<close> logs the error and
  returns: nothing but the console changes, so no attempt is counted and no retry is
  scheduled.
\<close>

theorem start_failure_paths:
  "(reconnectAttempts s + 1 < MAX_RECONNECT_ATTEMPTS \<longrightarrow>
      reconnectAttempts (create_rejected s) = reconnectAttempts s + 1
      \<and> timers (create_rejected s) = timers s @ [min ((reconnectAttempts s + 1) * 5000) 30000]
      \<and> isConnected (create_rejected s) = isConnected s
      \<and> console (create_rejected s) =
          console s @ [(ERROR, ''Error initializing WhatsApp''), (ERROR, ''Error details''),
                       (LOG, ''Retrying WhatsApp connection in ''
                             @ show_nat (min ((reconnectAttempts s + 1) * 5000) 30000 div 1000)
                             @ '' seconds... '' @ attempt_text (reconnectAttempts s + 1))])
   \<and> initializeWhatsApp False s =
       s\<lparr> console := console s @ [(LOG, ''Initializing WhatsApp session...''),
                                    (ERROR, ''Chrome not found''),
                                    (ERROR, ''Please verify CHROME_PATH environment variable.'')] \<rparr>"
proof -
  have chrome: "initializeWhatsApp False s =
       s\<lparr> console := console s @ [(LOG, ''Initializing WhatsApp session...''),
                                    (ERROR, ''Chrome not found''),
                                    (ERROR, ''Please verify CHROME_PATH environment variable.'')] \<rparr>"
    by (simp add: initializeWhatsApp_def say_def)
  have "console (create_rejected s) =
          console s @ [(ERROR, ''Error initializing WhatsApp''), (ERROR, ''Error details''),
                       (LOG, ''Retrying WhatsApp connection in ''
                             @ show_nat (min ((reconnectAttempts s + 1) * 5000) 30000 div 1000)
                             @ '' seconds... '' @ attempt_text (reconnectAttempts s + 1))]"
    if "reconnectAttempts s + 1 < MAX_RECONNECT_ATTEMPTS"
    using that by (simp add: create_rejected_def reconnect_delay_def Let_def)
  with chrome show ?thesis
    by (simp add: create_rejected_fields reconnect_delay_def)
qed

theorem start_failure_paths_witness:
  "reconnectAttempts (create_rejected (step (Listen True) boot)) = 1
   \<and> timers (create_rejected (step (Listen True) boot)) = [5000]
   \<and> isConnected (create_rejected (step (Listen True) boot)) = False
   \<and> timers (initializeWhatsApp False boot) = []
   \<and> reconnectAttempts (initializeWhatsApp False boot) = 0
   \<and> console (initializeWhatsApp False boot) =
       [(LOG, ''Initializing WhatsApp session...''), (ERROR, ''Chrome not found''),
        (ERROR, ''Please verify CHROME_PATH environment variable.'')]"
  using start_failure_paths [of "step (Listen True) boot"] start_failure_paths [of boot]
  by (simp add: supervisor_fields MAX_RECONNECT_ATTEMPTS_def)

subsection \<open>The order of the gateway's checks\<close>

text \<open>
  Claim C4 puts the length check of the normalised address before the connection
  check. The code normalises the phone number only after it has found the session
  connected: a request with the right key and the five-digit phone number \<open>12345\<close>,
  sent while the server is offline, is answered with 503 and not with 400.
\<close>

theorem short_phone_while_offline:
  "res_status (fst (send_message ''s3cret'' SendResolves short_phone_request boot)) = 503
   \<and> length (strip_non_digits ''12345'') = 5"
  by (simp add: send_message_def short_phone_request_def boot_fields failure_def
      strip_non_digits_def is_digit_def)

text \<open>
  Claim C4, as amended: the checks of \<open>POST /send-message\<close> run in this order. 401
  when the key is missing or differs from the shared key, before anything else; then
  400 when phone or message is missing; then 503 when the session is not connected;
  then 400 when the digits of the phone number are fewer than 10; then the adapter is
  called with the digits followed by \<open>@c.us\<close>, and the answer is 200 with the
  normalised phone when it succeeds and 500 with the adapter's error when it throws. A
  phone that is present but not a string is answered with 500 without calling the
  adapter. No answer other than the last two calls the adapter.
\<close>

theorem send_message_check_order:
  fixes K adapter req s
  defines "r \<equiv> fst (send_message K adapter req s)"
      and "s' \<equiv> snd (send_message K adapter req s)"
      and "authorized \<equiv> truthy (req_key req) \<and> req_key req = JStr K"
      and "given \<equiv> truthy (req_phone req) \<and> truthy (req_message req)"
      and "connected \<equiv> client s \<and> isConnected s"
  shows "(\<not> authorized \<longrightarrow> res_status r = 401 \<and> sent s' = sent s)
    \<and> (authorized \<and> \<not> given \<longrightarrow> res_status r = 400 \<and> sent s' = sent s)
    \<and> (authorized \<and> given \<and> \<not> connected \<longrightarrow> res_status r = 503 \<and> sent s' = sent s)
    \<and> (authorized \<and> given \<and> connected \<and> req_phone req = JStr phone
          \<and> length (strip_non_digits phone) < 10 \<longrightarrow> res_status r = 400 \<and> sent s' = sent s)
    \<and> (authorized \<and> given \<and> connected \<and> req_phone req = JStr phone
          \<and> 10 \<le> length (strip_non_digits phone) \<longrightarrow>
          sent s' = sent s @ [(strip_non_digits phone @ ''@c.us'', req_message req)]
          \<and> (adapter = SendResolves \<longrightarrow>
                res_status r = 200 \<and> res_ok r \<and> res_phone r = Some (strip_non_digits phone))
          \<and> (adapter = SendThrows e \<longrightarrow>
                res_status r = 500 \<and> \<not> res_ok r
                \<and> res_error r = Some (or_else e ''Failed to send message via WhatsApp'')))
    \<and> (authorized \<and> given \<and> connected \<and> (\<forall>p. req_phone req \<noteq> JStr p) \<longrightarrow>
          res_status r = 500 \<and> sent s' = sent s)"
  unfolding r_def s'_def authorized_def given_def connected_def
  by (cases "req_phone req")
     (auto simp: send_message_def failure_def Let_def split: send_outcome.splits)

theorem send_message_check_order_witness:
  "res_status (fst (send_message ''s3cret'' SendResolves good_request online)) = 200
   \<and> res_phone (fst (send_message ''s3cret'' SendResolves good_request online)) = Some ''919999999999''
   \<and> sent (snd (send_message ''s3cret'' SendResolves good_request online)) = [(''919999999999@c.us'', JStr ''Hello'')]
   \<and> res_status (fst (send_message ''s3cret'' SendResolves short_phone_request online)) = 400
   \<and> res_status (fst (send_message ''s3cret'' SendResolves short_phone_request boot)) = 503
   \<and> res_status (fst (send_message ''other'' SendResolves good_request online)) = 401"
  using send_message_check_order [where K = "''s3cret''" and req = good_request and s = online
          and phone = "''+91 99999 99999''" and adapter = SendResolves and e = None]
        send_message_check_order [where K = "''s3cret''" and req = short_phone_request and s = online
          and phone = "''12345''" and adapter = SendResolves and e = None]
        send_message_check_order [where K = "''s3cret''" and req = short_phone_request and s = boot
          and phone = "''12345''" and adapter = SendResolves and e = None]
        send_message_check_order [where K = "''other''" and req = good_request and s = online
          and phone = "''12345''" and adapter = SendResolves and e = None]
  by (simp add: good_request_def short_phone_request_def online_fields boot_fields
      strip_non_digits_def is_digit_def)

subsection \<open>An empty shared key\<close>

text \<open>
  Claim C10: when \<open>SYNC_KEY\<close> is the empty string (the environment variable is unset
  or empty), every \<open>POST /send-message\<close> request is answered with 401, whatever key
  it carries, and the adapter is never called.
\<close>

theorem empty_key_rejects_all:
  "res_status (fst (send_message (SYNC_KEY None) adapter req s)) = 401
   \<and> res_status (fst (send_message (SYNC_KEY (Some [])) adapter req s)) = 401
   \<and> sent (snd (send_message (SYNC_KEY None) adapter req s)) = sent s
   \<and> sent (snd (send_message (SYNC_KEY (Some [])) adapter req s)) = sent s"
  by (cases "req_key req") (auto simp: send_message_def SYNC_KEY_def env_or_def failure_def)

theorem empty_key_rejects_all_witness:
  "res_status (fst (send_message (SYNC_KEY None) SendResolves (good_request\<lparr> req_key := JStr [] \<rparr>) online)) = 401
   \<and> res_status (fst (send_message (SYNC_KEY None) SendResolves good_request online)) = 401
   \<and> sent (snd (send_message (SYNC_KEY None) SendResolves good_request online)) = []"
  using empty_key_rejects_all [of SendResolves "good_request\<lparr> req_key := JStr [] \<rparr>" online]
        empty_key_rejects_all [of SendResolves good_request online]
  by (simp add: online_fields)

subsection \<open>Digits and strings\<close>

lemma is_digit_digit_char [simp]: "is_digit (digit_char n)"
proof -
  have "n mod 10 < length ''0123456789''" by simp
  then have "''0123456789'' ! (n mod 10) \<in> set ''0123456789''" by (rule nth_mem)
  then show ?thesis by (simp only: is_digit_def digit_char_def)
qed

lemma digit_char_neq [simp]: "\<not> is_digit c \<Longrightarrow> digit_char n \<noteq> c"
  using is_digit_digit_char [of n] by auto

lemma not_digit_chars [simp]:
  "\<not> is_digit CHR ''T''" "\<not> is_digit CHR ''-''" "\<not> is_digit CHR ''@''"
  by (simp_all add: is_digit_def)

lemma pad_digits_2: "pad_digits 2 n = [digit_char (n div 10), digit_char n]"
  by (simp add: numeral_2_eq_2)

lemma pad_digits_4:
  "pad_digits 4 n = [digit_char (n div 10 div 10 div 10), digit_char (n div 10 div 10),
                     digit_char (n div 10), digit_char n]"
proof -
  have "(4::nat) = Suc (Suc (Suc (Suc 0)))" by simp
  then show ?thesis by (simp only: pad_digits.simps append.simps)
qed

lemma replace_first_suffix:
  assumes "list_all is_digit ds"
  shows "replace_first ''@c.us'' [] (ds @ ''@c.us'') = ds"
  using assms
proof (induction ds)
  case Nil
  show ?case by simp
next
  case (Cons c cs)
  then have "c \<noteq> CHR ''@''" by auto
  with Cons show ?case by simp
qed

lemma not_status_broadcast: "ds @ ''@c.us'' \<noteq> ''status@broadcast''"
proof
  assume "ds @ ''@c.us'' = ''status@broadcast''"
  then have "last (ds @ ''@c.us'') = last ''status@broadcast''" by simp
  then show False by simp
qed

subsection \<open>Dates\<close>

text \<open>
  Between 0000-01-01 and 9999-12-31 the civil date has a year of four digits, a month
  from 1 to 12 and a day from 1 to 31.
\<close>

lemma r100_bounds:
  fixes r400 :: int
  assumes "0 \<le> r400" "r400 \<le> 146096"
  shows "0 \<le> r400 - min 3 (r400 div 36524) * 36524"
    and "r400 - min 3 (r400 div 36524) * 36524 \<le> 36524"
  using assms by (auto simp: min_def)

lemma doy_bounds:
  fixes r4 :: int
  assumes "0 \<le> r4" "r4 \<le> 1460"
  shows "0 \<le> r4 - min 3 (r4 div 365) * 365"
    and "r4 - min 3 (r4 div 365) * 365 \<le> 365"
  using assms by (auto simp: min_def)

lemma month_day_bounds:
  fixes doy :: int
  assumes "0 \<le> doy" "doy \<le> 365"
      and "mp = (5 * doy + 2) div 153"
  shows "0 \<le> mp" "mp \<le> 11"
    and "1 \<le> doy - (153 * mp + 2) div 5 + 1"
    and "doy - (153 * mp + 2) div 5 + 1 \<le> 31"
  using assms by auto


lemma civil_from_days_range:
  assumes lo: "- 719528 \<le> day" and hi: "day \<le> 2932896"
      and c: "civil_from_days day = (y, m, d)"
  shows "0 \<le> y \<and> y \<le> 9999 \<and> 1 \<le> m \<and> m \<le> 12 \<and> 1 \<le> d \<and> d \<le> 31"
proof -
  define z where "z = day + 719468"
  define n400 where "n400 = z div 146097"
  define r400 where "r400 = z mod 146097"
  define n100 where "n100 = min 3 (r400 div 36524)"
  define r100 where "r100 = r400 - n100 * 36524"
  define n4 where "n4 = r100 div 1461"
  define r4 where "r4 = r100 mod 1461"
  define n1 where "n1 = min 3 (r4 div 365)"
  define doy where "doy = r4 - n1 * 365"
  define mp where "mp = (5 * doy + 2) div 153"
  have unfolded: "civil_from_days day =
          (400 * n400 + 100 * n100 + 4 * n4 + n1
             + (if (if mp < 10 then mp + 3 else mp - 9) \<le> 2 then 1 else 0),
           (if mp < 10 then mp + 3 else mp - 9),
           doy - (153 * mp + 2) div 5 + 1)"
    unfolding civil_from_days_def Let_def z_def n400_def r400_def n100_def r100_def
      n4_def r4_def n1_def doy_def mp_def
    by (rule refl)
  have m: "m = (if mp < 10 then mp + 3 else mp - 9)"
    using c unfolding unfolded by (rule Pair_inject) (elim Pair_inject, rule sym)
  have d: "d = doy - (153 * mp + 2) div 5 + 1"
    using c unfolding unfolded by (rule Pair_inject) (elim Pair_inject, rule sym)
  have y: "y = 400 * n400 + 100 * n100 + 4 * n4 + n1
             + (if (if mp < 10 then mp + 3 else mp - 9) \<le> 2 then 1 else 0)"
    using c unfolding unfolded by (rule Pair_inject) (rule sym)
  have z: "- 60 \<le> z" "z \<le> 3652364" using lo hi by (simp_all add: z_def)
  have zsplit: "z = 146097 * n400 + r400" by (simp add: n400_def r400_def)
  have r400: "0 \<le> r400" "r400 \<le> 146096" by (simp_all add: r400_def) 
  have n400: "- 1 \<le> n400" "n400 \<le> 24" using z unfolding n400_def by arith+
  have n100: "0 \<le> n100" "n100 \<le> 3"
    using r400 by (simp_all add: n100_def pos_imp_zdiv_nonneg_iff)
  have r100: "0 \<le> r100" "r100 \<le> 36524"
    using r100_bounds [OF r400] by (simp_all add: r100_def n100_def)
  have r100split: "r100 = 1461 * n4 + r4" by (simp add: n4_def r4_def)
  have r4: "0 \<le> r4" "r4 \<le> 1460" by (simp_all add: r4_def)
  have n4: "0 \<le> n4" "n4 \<le> 24" using r100 by (simp_all add: n4_def)
  have n1: "0 \<le> n1" "n1 \<le> 3"
    using r4 by (simp_all add: n1_def pos_imp_zdiv_nonneg_iff)
  have doy: "0 \<le> doy" "doy \<le> 365"
    using doy_bounds [OF r4] by (simp_all add: doy_def n1_def)
  have mp: "0 \<le> mp" "mp \<le> 11" and dd: "1 \<le> d" "d \<le> 31"
    using month_day_bounds [OF doy mp_def] by (simp_all add: d)
  have mm: "1 \<le> m" "m \<le> 12" using mp by (simp_all add: m)
  have y_lo: "0 \<le> y"
  proof (cases "n400 = - 1")
    case True
    then have a: "146037 \<le> r400" using z zsplit by simp
    then have b: "n100 = 3" using r400 by (simp add: n100_def)
    then have c1: "36465 \<le> r100" using a by (simp add: r100_def)
    then have d1: "n4 = 24" using r100 by (simp add: n4_def)
    then have e: "1401 \<le> r4" using c1 r100split by simp
    then have f: "n1 = 3" using r4 by (simp add: n1_def)
    then have "306 \<le> doy" using e by (simp add: doy_def)
    then have "10 \<le> mp" by (simp add: mp_def)
    then show ?thesis using True b d1 f mp by (simp add: y)
  next
    case False
    then have "0 \<le> n400" using n400 by simp
    then show ?thesis using n100 n4 n1 by (simp add: y)
  qed
  have y_hi: "y \<le> 9999"
  proof (cases "n400 = 24 \<and> n100 = 3 \<and> n4 = 24 \<and> n1 = 3")
    case True
    then have "r400 \<le> 146036" using z zsplit by simp
    then have "r100 \<le> 36464" using True by (simp add: r100_def)
    then have "r4 \<le> 1400" using True r100split by simp
    then have "doy \<le> 305" using True by (simp add: doy_def)
    then have "mp < 10" by (simp add: mp_def)
    then show ?thesis using True mp by (simp add: y)
  next
    case False
    then have "n400 \<noteq> 24 \<or> n100 \<noteq> 3 \<or> n4 \<noteq> 24 \<or> n1 \<noteq> 3" by blast
    then have "400 * n400 + 100 * n100 + 4 * n4 + n1 \<le> 9998"
      using n400 n100 n4 n1 by (elim disjE) linarith+
    then show ?thesis by (simp add: y)
  qed
  show ?thesis using y_lo y_hi mm dd by simp
qed


text \<open>The civil date computed for a day number is the date with that day number.\<close>

lemma days_from_civil_inverse:
  assumes c: "civil_from_days day = (y, m, d)"
  shows "days_from_civil y m d = day"
proof -
  define z where "z = day + 719468"
  define n400 where "n400 = z div 146097"
  define r400 where "r400 = z mod 146097"
  define n100 where "n100 = min 3 (r400 div 36524)"
  define r100 where "r100 = r400 - n100 * 36524"
  define n4 where "n4 = r100 div 1461"
  define r4 where "r4 = r100 mod 1461"
  define n1 where "n1 = min 3 (r4 div 365)"
  define doy where "doy = r4 - n1 * 365"
  define mp where "mp = (5 * doy + 2) div 153"
  define yoe where "yoe = 100 * n100 + 4 * n4 + n1"
  have unfolded: "civil_from_days day =
          (400 * n400 + 100 * n100 + 4 * n4 + n1
             + (if (if mp < 10 then mp + 3 else mp - 9) \<le> 2 then 1 else 0),
           (if mp < 10 then mp + 3 else mp - 9),
           doy - (153 * mp + 2) div 5 + 1)"
    unfolding civil_from_days_def Let_def z_def n400_def r400_def n100_def r100_def
      n4_def r4_def n1_def doy_def mp_def
    by (rule refl)
  have m: "m = (if mp < 10 then mp + 3 else mp - 9)"
    using c unfolding unfolded by (rule Pair_inject) (elim Pair_inject, rule sym)
  have d: "d = doy - (153 * mp + 2) div 5 + 1"
    using c unfolding unfolded by (rule Pair_inject) (elim Pair_inject, rule sym)
  have y: "y = 400 * n400 + 100 * n100 + 4 * n4 + n1
             + (if (if mp < 10 then mp + 3 else mp - 9) \<le> 2 then 1 else 0)"
    using c unfolding unfolded by (rule Pair_inject) (rule sym)
  have zsplit: "z = 146097 * n400 + r400" by (simp add: n400_def r400_def)
  have r400: "0 \<le> r400" "r400 \<le> 146096" by (simp_all add: r400_def)
  have n100: "0 \<le> n100" "n100 \<le> 3"
    using r400 by (simp_all add: n100_def pos_imp_zdiv_nonneg_iff)
  have r100: "0 \<le> r100" "r100 \<le> 36524"
    using r100_bounds [OF r400] by (simp_all add: r100_def n100_def)
  have r100split: "r100 = 1461 * n4 + r4" by (simp add: n4_def r4_def)
  have r4: "0 \<le> r4" "r4 \<le> 1460" by (simp_all add: r4_def)
  have n4: "0 \<le> n4" "n4 \<le> 24" using r100 by (simp_all add: n4_def)
  have n1: "0 \<le> n1" "n1 \<le> 3"
    using r4 by (simp_all add: n1_def pos_imp_zdiv_nonneg_iff)
  have doy: "0 \<le> doy" "doy \<le> 365"
    using doy_bounds [OF r4] by (simp_all add: doy_def n1_def)
  have mp: "0 \<le> mp" "mp \<le> 11"
    using month_day_bounds [OF doy mp_def] by simp_all
  have yoe: "0 \<le> yoe" "yoe \<le> 399" using n100 n4 n1 by (simp_all add: yoe_def)
  have y': "(if m \<le> 2 then y - 1 else y) = 400 * n400 + yoe"
    by (simp add: y m yoe_def)
  have era: "(400 * n400 + yoe) div 400 = n400" using yoe by simp
  have yoe_mod: "(400 * n400 + yoe) mod 400 = yoe" using yoe by simp
  have q4: "yoe div 4 = 25 * n100 + n4" using n1 by (simp add: yoe_def)
  have q100: "yoe div 100 = n100" using n4 n1 by (simp add: yoe_def)
  have mp': "(if 2 < m then m - 3 else m + 9) = mp" using mp by (simp add: m)
  have doy': "(153 * mp + 2) div 5 + d - 1 = doy" by (simp add: d)
  have doe: "yoe * 365 + yoe div 4 - yoe div 100 + doy = r400"
    unfolding q4 q100 by (simp add: yoe_def doy_def r100split [symmetric] r100_def)
  have "days_from_civil y m d = n400 * 146097 + r400 - 719468"
    unfolding days_from_civil_def Let_def y' mp' era yoe_mod doy' doe by (rule refl)
  then show ?thesis using zsplit by (simp add: z_def)
qed

lemma day_range:
  fixes ms :: int
  assumes "- 62167219200000 \<le> ms" "ms < 253402300800000"
  shows "- 719528 \<le> ms div 86400000" and "ms div 86400000 \<le> 2932896"
  using assms by arith+

lemma toISOString_four_digit_year:
  assumes "- 62167219200000 \<le> ms" "ms < 253402300800000"
  shows "\<exists>y m d f. toISOString ms =
           Inr (pad_digits 4 y @ ''-'' @ pad_digits 2 m @ ''-'' @ pad_digits 2 d @ ''T''
                @ pad_digits 2 (nat (ms mod 86400000) div 3600000) @ '':''
                @ pad_digits 2 (nat (ms mod 86400000) div 60000 mod 60) @ '':''
                @ pad_digits 2 (nat (ms mod 86400000) div 1000 mod 60) @ ''.'' @ f @ ''Z'')"
proof -
  obtain y m d where c: "civil_from_days (ms div 86400000) = (y, m, d)"
    by (cases "civil_from_days (ms div 86400000)")
  from civil_from_days_range [OF day_range [OF assms] c]
  have y: "0 \<le> y" "y \<le> 9999" by simp_all
  have valid: "\<not> 8640000000000000 < \<bar>ms\<bar>" using assms by simp
  have "toISOString ms =
           Inr (pad_digits 4 (nat y) @ ''-'' @ pad_digits 2 (nat m) @ ''-'' @ pad_digits 2 (nat d) @ ''T''
                @ pad_digits 2 (nat (ms mod 86400000) div 3600000) @ '':''
                @ pad_digits 2 (nat (ms mod 86400000) div 60000 mod 60) @ '':''
                @ pad_digits 2 (nat (ms mod 86400000) div 1000 mod 60) @ ''.''
                @ pad_digits 3 (nat (ms mod 86400000) mod 1000) @ ''Z'')"
    unfolding toISOString_def c year_text_def Let_def using valid y by simp
  then show ?thesis by blast
qed

lemma timestamp_text_fixed_form:
  assumes "- 62167219200000 \<le> ms" "ms < 253402300800000"
  shows "\<exists>ts. timestamp_text ms = Inr ts \<and> fixed_form ts"
proof -
  from toISOString_four_digit_year [OF assms]
  obtain y m d f where "toISOString ms =
           Inr (pad_digits 4 y @ ''-'' @ pad_digits 2 m @ ''-'' @ pad_digits 2 d @ ''T''
                @ pad_digits 2 (nat (ms mod 86400000) div 3600000) @ '':''
                @ pad_digits 2 (nat (ms mod 86400000) div 60000 mod 60) @ '':''
                @ pad_digits 2 (nat (ms mod 86400000) div 1000 mod 60) @ ''.'' @ f @ ''Z'')"
    by blast
  then show ?thesis
    by (simp add: timestamp_text_def pad_digits_2 pad_digits_4 fixed_form_def matches_form_def)
qed


subsection \<open>What \<open>sendToCRM\<close> and \<open>onMessage\<close> do\<close>

lemma sendToCRM_Status:
  "sendToCRM (Status n) d s =
     (if n = 200
      then (Inr True, say LOG ''Message forwarded to CRM successfully'' (s\<lparr> posts := posts s @ [d] \<rparr>))
      else if n < 500
      then (Inr False, say ERROR (''CRM webhook returned status '' @ show_nat n) (s\<lparr> posts := posts s @ [d] \<rparr>))
      else (Inr False, say ERROR (''CRM webhook error ('' @ show_nat n @ '')'') (s\<lparr> posts := posts s @ [d] \<rparr>)))"
  by (simp add: sendToCRM_def axios_post_def Let_def)

lemma sendToCRM_NoResponse:
  "sendToCRM NoResponse d s =
     (Inr False, say ERROR ''No response from CRM webhook. Check CRM_WEBHOOK URL and network connectivity.''
                   (s\<lparr> posts := posts s @ [d] \<rparr>))"
  by (simp add: sendToCRM_def axios_post_def Let_def)

lemma sendToCRM_SetupFailure:
  "sendToCRM (SetupFailure msg) d s =
     (Inr False, say ERROR (''Error sending to CRM webhook: '' @ msg) (s\<lparr> posts := posts s @ [d] \<rparr>))"
  by (simp add: sendToCRM_def axios_post_def Let_def)

lemma sendToCRM_result:
  "(w = Status 200 \<and>
      sendToCRM w d s = (Inr True, say LOG ''Message forwarded to CRM successfully'' (s\<lparr> posts := posts s @ [d] \<rparr>)))
   \<or> (w \<noteq> Status 200 \<and>
      (\<exists>line. sendToCRM w d s = (Inr False, say ERROR line (s\<lparr> posts := posts s @ [d] \<rparr>))))"
proof (cases w)
  case (Status n)
  then show ?thesis by (auto simp: sendToCRM_Status)
next
  case NoResponse
  then show ?thesis by (auto simp: sendToCRM_NoResponse)
next
  case (SetupFailure msg)
  then show ?thesis by (auto simp: sendToCRM_SetupFailure)
qed

lemma sendToCRM_posts: "posts (snd (sendToCRM w d s)) = posts s @ [d]"
  using sendToCRM_result [of w d s] by auto

lemma sendToCRM_returns: "\<exists>b. fst (sendToCRM w d s) = Inr b"
  using sendToCRM_result [of w d s] by auto

lemma onMessage_returns: "fst (onMessage K w now m s) = Inr ()"
  by (simp add: onMessage_def split: prod.splits sum.splits)

lemma onMessage_skipped:
  assumes "isGroupMsg m \<or> m_from m = ''status@broadcast''"
  shows "onMessage K w now m s = (Inr (), s)"
  using assms by (auto simp: onMessage_def onMessage_try_def)

lemma onMessage_bad_timestamp:
  assumes "\<not> isGroupMsg m" "m_from m \<noteq> ''status@broadcast''" "message_timestamp now m = Inl e"
  shows "onMessage K w now m s = (Inr (), say ERROR ''Error processing incoming message'' s)"
  using assms by (simp add: onMessage_def onMessage_try_def)

lemma onMessage_forwarded:
  assumes "\<not> isGroupMsg m" "m_from m \<noteq> ''status@broadcast''" "message_timestamp now m = Inr ts"
  shows "posts (snd (onMessage K w now m s)) =
           posts s @ [\<lparr> p_sync_key = K, p_phone = replace_first ''@c.us'' [] (m_from m),
                        p_message = messageText m, p_sender = ''customer'', p_timestamp = ts \<rparr>]"
    and "w \<noteq> Status 200 \<Longrightarrow>
           last (console (snd (onMessage K w now m s))) =
             (ERROR, ''Failed to forward message from '' @ replace_first ''@c.us'' [] (m_from m) @ '' to CRM'')"
proof -
  let ?d = "\<lparr> p_sync_key = K, p_phone = replace_first ''@c.us'' [] (m_from m),
              p_message = messageText m, p_sender = ''customer'', p_timestamp = ts \<rparr>"
  let ?s1 = "say LOG (''Message received from '' @ replace_first ''@c.us'' [] (m_from m) @ '': ''
                      @ preview (messageText m)) s"
  from sendToCRM_result [of w ?d ?s1]
  show "posts (snd (onMessage K w now m s)) = posts s @ [?d]"
    using assms by (auto simp: onMessage_def onMessage_try_def Let_def)
  from sendToCRM_result [of w ?d ?s1]
  show "w \<noteq> Status 200 \<Longrightarrow>
           last (console (snd (onMessage K w now m s))) =
             (ERROR, ''Failed to forward message from '' @ replace_first ''@c.us'' [] (m_from m) @ '' to CRM'')"
    using assms by (auto simp: onMessage_def onMessage_try_def Let_def)
qed

lemma onMessage_posts_length:
  "length (posts (snd (onMessage K w now m s))) \<le> length (posts s) + 1"
proof (cases "isGroupMsg m \<or> m_from m = ''status@broadcast''")
  case True
  then show ?thesis by (simp add: onMessage_skipped)
next
  case False
  then show ?thesis
    by (cases "message_timestamp now m")
       (simp_all add: onMessage_bad_timestamp onMessage_forwarded(1))
qed

lemma message_timestamp_fixed_form:
  assumes "\<forall>t. m_timestamp m = Some t \<longrightarrow> - 62167219200 \<le> t \<and> t < 253402300800"
      and "- 62167219200000 \<le> now" "now < 253402300800000"
  shows "\<exists>ts. message_timestamp now m = Inr ts \<and> fixed_form ts"
proof (cases "m_timestamp m")
  case None
  then show ?thesis using assms(2,3) by (simp add: message_timestamp_def timestamp_text_fixed_form)
next
  case (Some t)
  with assms(1) have "- 62167219200000 \<le> t * 1000" "t * 1000 < 253402300800000" by simp_all
  then have "\<exists>ts. timestamp_text (t * 1000) = Inr ts \<and> fixed_form ts"
    by (rule timestamp_text_fixed_form)
  then show ?thesis
    using Some assms(2,3) by (simp add: message_timestamp_def timestamp_text_fixed_form)
qed


subsection \<open>Dates of the examples\<close>

lemma civil_from_days_examples:
  "civil_from_days 0 = (1970, 1, 1)"
  "civil_from_days 11016 = (2000, 2, 29)"
  "civil_from_days 11017 = (2000, 3, 1)"
  "civil_from_days (- 719528) = (0, 1, 1)"
  "civil_from_days (- 719529) = (- 1, 12, 31)"
  "civil_from_days 100000000 = (275760, 9, 13)"
  "civil_from_days (- 100000000) = (- 271821, 4, 20)"
  unfolding civil_from_days_def Let_def by simp_all

lemma civil_2023: "civil_from_days 19675 = (2023, 11, 14)"
  unfolding civil_from_days_def Let_def by simp

lemma civil_10000: "civil_from_days 2932897 = (10000, 1, 1)"
  unfolding civil_from_days_def Let_def by simp

lemma pad_digits_6:
  "pad_digits 6 n = [digit_char (n div 10 div 10 div 10 div 10 div 10), digit_char (n div 10 div 10 div 10 div 10),
                     digit_char (n div 10 div 10 div 10), digit_char (n div 10 div 10),
                     digit_char (n div 10), digit_char n]"
proof -
  have "(6::nat) = Suc (Suc (Suc (Suc (Suc (Suc 0)))))" by simp
  then show ?thesis by (simp only: pad_digits.simps append.simps)
qed

lemma hi_timestamp: "timestamp_text (1700000000 * 1000) = Inr ''2023-11-14 22:13:20''"
proof -
  have "civil_from_days (1700000000 * 1000 div 86400000) = (2023, 11, 14)"
    using civil_2023 by simp
  then show ?thesis
    unfolding timestamp_text_def toISOString_def Let_def
    by (simp add: year_text_def pad_digits_2 pad_digits_4 digit_char_def)
qed

lemma late_timestamp: "timestamp_text (253402300800 * 1000) = Inr ''+010000-01-01 00:00''"
proof -
  have "civil_from_days (253402300800 * 1000 div 86400000) = (10000, 1, 1)"
    using civil_10000 by simp
  then show ?thesis
    unfolding timestamp_text_def toISOString_def Let_def
    by (simp add: year_text_def pad_digits_2 pad_digits_6 digit_char_def)
qed

subsection \<open>The relay payload\<close>

text \<open>
  Claim C5, as amended: for every inbound message that is not from a group, whose
  sender address is a string of digits followed by \<open>@c.us\<close> and whose time value
  (the message's timestamp, or the current time when it has none) lies in the years
  0000 to 9999, exactly one payload is posted; its phone is the digits of the sender,
  its sender field is \<open>customer\<close>, its key is the shared key and its timestamp has the
  form \<open>YYYY-MM-DD HH:MM:SS\<close>. The message from \<open>919999999999@c.us\<close> with body
  \<open>Hi\<close> and timestamp 1700000000 is posted as phone \<open>919999999999\<close>, message \<open>Hi\<close>,
  sender \<open>customer\<close>, timestamp \<open>2023-11-14 22:13:20\<close>.
\<close>

theorem relay_payload_shape:
  assumes "\<not> isGroupMsg m"
      and "m_from m = ds @ ''@c.us''" and "list_all is_digit ds"
      and "\<forall>t. m_timestamp m = Some t \<longrightarrow> - 62167219200 \<le> t \<and> t < 253402300800"
      and "- 62167219200000 \<le> now" and "now < 253402300800000"
  shows "\<exists>ts. fixed_form ts \<and>
           posts (snd (onMessage K w now m s)) =
             posts s @ [\<lparr> p_sync_key = K, p_phone = ds, p_message = messageText m,
                          p_sender = ''customer'', p_timestamp = ts \<rparr>]"
proof -
  from message_timestamp_fixed_form [OF assms(4-6)]
  obtain ts where ts: "message_timestamp now m = Inr ts" "fixed_form ts" by blast
  have "m_from m \<noteq> ''status@broadcast''"
    using assms(2) not_status_broadcast by simp
  from onMessage_forwarded(1) [OF assms(1) this ts(1)]
  have "posts (snd (onMessage K w now m s)) =
             posts s @ [\<lparr> p_sync_key = K, p_phone = ds, p_message = messageText m,
                          p_sender = ''customer'', p_timestamp = ts \<rparr>]"
    using assms(2,3) by (simp add: replace_first_suffix)
  with ts(2) show ?thesis by blast
qed

lemma hi_message_fields:
  "isGroupMsg hi_message = False" "m_from hi_message = ''919999999999'' @ ''@c.us''"
  "m_timestamp hi_message = Some 1700000000" "messageText hi_message = ''Hi''"
  by (simp_all add: hi_message_def messageText_def present_def)

theorem relay_payload_shape_witness:
  "fixed_form ''2023-11-14 22:13:20''
   \<and> posts (snd (onMessage ''s3cret'' (Status 200) 0 hi_message online)) =
       [\<lparr> p_sync_key = ''s3cret'', p_phone = ''919999999999'', p_message = ''Hi'',
          p_sender = ''customer'', p_timestamp = ''2023-11-14 22:13:20'' \<rparr>]"
proof -
  have "\<exists>ts. fixed_form ts \<and>
           posts (snd (onMessage ''s3cret'' (Status 200) 0 hi_message online)) =
             posts online @ [\<lparr> p_sync_key = ''s3cret'', p_phone = ''919999999999'',
                          p_message = messageText hi_message,
                          p_sender = ''customer'', p_timestamp = ts \<rparr>]"
    by (rule relay_payload_shape)
       (simp_all add: hi_message_fields is_digit_def)
  then obtain ts where ts: "fixed_form ts"
    "posts (snd (onMessage ''s3cret'' (Status 200) 0 hi_message online)) =
       [\<lparr> p_sync_key = ''s3cret'', p_phone = ''919999999999'', p_message = ''Hi'',
          p_sender = ''customer'', p_timestamp = ts \<rparr>]"
    by (auto simp: hi_message_fields online_fields)
  have "message_timestamp 0 hi_message = Inr ''2023-11-14 22:13:20''"
    using hi_timestamp by (simp add: message_timestamp_def hi_message_fields)
  from onMessage_forwarded(1) [OF _ _ this, of "''s3cret''" "Status 200" online]
  have "p_timestamp (last (posts (snd (onMessage ''s3cret'' (Status 200) 0 hi_message online))))
          = ''2023-11-14 22:13:20''"
    by (simp add: hi_message_fields)
  with ts(2) have "ts = ''2023-11-14 22:13:20''" by simp
  with ts show ?thesis by simp
qed

lemma other_message_fields:
  "isGroupMsg lid_message = False" "m_from lid_message = ''123456789012345@lid''"
  "m_timestamp lid_message = Some 1700000000" "messageText lid_message = ''Hi''"
  "isGroupMsg late_message = False" "m_from late_message = ''919999999999@c.us''"
  "m_timestamp late_message = Some 253402300800" "messageText late_message = ''Hi''"
  by (simp_all add: lid_message_def late_message_def hi_message_def messageText_def present_def)

text \<open>
  Claim C5 as it is written fails on two messages the handler forwards. The handler
  removes the first \<open>@c.us\<close> from the sender address and nothing else, so the
  address \<open>123456789012345@lid\<close> is posted as it is, with its suffix. A timestamp in
  the year 10000 makes \<open>toISOString\<close> print a sign and six digits for the year, and
  the first 19 characters of that are not of the form \<open>YYYY-MM-DD HH:MM:SS\<close>.
\<close>

theorem relay_payload_not_always_digits:
  "posts (snd (onMessage ''s3cret'' (Status 200) 0 lid_message online)) =
       [\<lparr> p_sync_key = ''s3cret'', p_phone = ''123456789012345@lid'', p_message = ''Hi'',
          p_sender = ''customer'', p_timestamp = ''2023-11-14 22:13:20'' \<rparr>]
   \<and> \<not> list_all is_digit ''123456789012345@lid''
   \<and> posts (snd (onMessage ''s3cret'' (Status 200) 0 late_message online)) =
       [\<lparr> p_sync_key = ''s3cret'', p_phone = ''919999999999'', p_message = ''Hi'',
          p_sender = ''customer'', p_timestamp = ''+010000-01-01 00:00'' \<rparr>]
   \<and> \<not> fixed_form ''+010000-01-01 00:00''"
proof -
  have a: "message_timestamp 0 lid_message = Inr ''2023-11-14 22:13:20''"
    using hi_timestamp by (simp add: message_timestamp_def other_message_fields)
  have b: "message_timestamp 0 late_message = Inr ''+010000-01-01 00:00''"
    using late_timestamp by (simp add: message_timestamp_def other_message_fields)
  have "posts (snd (onMessage ''s3cret'' (Status 200) 0 lid_message online)) =
       [\<lparr> p_sync_key = ''s3cret'', p_phone = ''123456789012345@lid'', p_message = ''Hi'',
          p_sender = ''customer'', p_timestamp = ''2023-11-14 22:13:20'' \<rparr>]"
    using onMessage_forwarded(1) [OF _ _ a, of "''s3cret''" "Status 200" online]
    by (simp add: other_message_fields online_fields)
  moreover have "posts (snd (onMessage ''s3cret'' (Status 200) 0 late_message online)) =
       [\<lparr> p_sync_key = ''s3cret'', p_phone = ''919999999999'', p_message = ''Hi'',
          p_sender = ''customer'', p_timestamp = ''+010000-01-01 00:00'' \<rparr>]"
    using onMessage_forwarded(1) [OF _ _ b, of "''s3cret''" "Status 200" online]
    by (simp add: other_message_fields online_fields)
  moreover have "\<not> list_all is_digit ''123456789012345@lid''"
    by (simp add: is_digit_def)
  moreover have "\<not> fixed_form ''+010000-01-01 00:00''"
    by (simp add: fixed_form_def matches_form_def is_digit_def)
  ultimately show ?thesis by blast
qed

subsection \<open>Delivery failures\<close>

text \<open>
  Claim C6: when the webhook answers with a status outside 200 to 299, does not answer
  (network error, timeout) or cannot be called, \<open>sendToCRM\<close> returns \<open>false\<close>
  without throwing, having called \<open>axios.post\<close> once and written one line to the
  error console; \<open>onMessage\<close> never throws, posts at most once for a message, and when
  it has posted its last console line is an error line.
\<close>

theorem delivery_failure_logged_not_thrown:
  assumes "w = NoResponse \<or> w = SetupFailure msg \<or> (w = Status n \<and> \<not> (200 \<le> n \<and> n < 300))"
  shows "(\<exists>line. sendToCRM w d s =
            (Inr False, s\<lparr> posts := posts s @ [d], console := console s @ [(ERROR, line)] \<rparr>))
     \<and> fst (onMessage K w now m s) = Inr ()
     \<and> length (posts (snd (onMessage K w now m s))) \<le> length (posts s) + 1
     \<and> (posts (snd (onMessage K w now m s)) = posts s
         \<or> fst (last (console (snd (onMessage K w now m s)))) = ERROR)"
proof -
  from assms have w: "w \<noteq> Status 200" by auto
  with sendToCRM_result [of w d s]
  have "\<exists>line. sendToCRM w d s =
            (Inr False, s\<lparr> posts := posts s @ [d], console := console s @ [(ERROR, line)] \<rparr>)"
    by (simp add: say_def)
  moreover have "posts (snd (onMessage K w now m s)) = posts s
         \<or> fst (last (console (snd (onMessage K w now m s)))) = ERROR"
  proof (cases "isGroupMsg m \<or> m_from m = ''status@broadcast''")
    case True
    then show ?thesis by (simp add: onMessage_skipped)
  next
    case False
    then show ?thesis
      using w by (cases "message_timestamp now m")
         (simp_all add: onMessage_bad_timestamp onMessage_forwarded(2))
  qed
  ultimately show ?thesis
    using onMessage_posts_length [of K w now m s] by (simp add: onMessage_returns)
qed

theorem delivery_failure_logged_not_thrown_witness:
  "sendToCRM (Status 500) \<lparr> p_sync_key = ''s3cret'', p_phone = ''919999999999'', p_message = ''Hi'',
          p_sender = ''customer'', p_timestamp = ''2023-11-14 22:13:20'' \<rparr> boot
     = (Inr False, boot\<lparr> posts := [\<lparr> p_sync_key = ''s3cret'', p_phone = ''919999999999'', p_message = ''Hi'',
          p_sender = ''customer'', p_timestamp = ''2023-11-14 22:13:20'' \<rparr>],
          console := [(ERROR, ''CRM webhook error ('' @ show_nat 500 @ '')'')] \<rparr>)
   \<and> fst (onMessage ''s3cret'' (Status 500) 0 hi_message online) = Inr ()
   \<and> length (posts (snd (onMessage ''s3cret'' (Status 500) 0 hi_message online))) \<le> 1"
  using delivery_failure_logged_not_thrown [where w = "Status 500" and n = 500 and msg = "[]"
          and K = "''s3cret''" and now = 0 and m = hi_message and s = online]
  by (simp add: sendToCRM_Status say_def boot_fields online_fields)

end
